theory Spec2Isabelle
  imports Main "HOL-Library.Sublist"
begin

section \<open>JavaScript values used by the widget\<close>

text \<open>
  The focused-option index is a JavaScript number. The component only ever stores
  \<open>-1\<close>, a row index, or the result of \<open>+\<close>, \<open>-\<close> and \<open>%\<close> on such values, so
  a number is an integer or \<open>NaN\<close>. (\<open>-0\<close>, which \<open>%\<close> returns for a negative dividend
  that is a multiple of the divisor, is identified with \<open>0\<close>: \<open>===\<close>, array indexing and
  further arithmetic do not tell them apart.)
\<close>

datatype jsnum = Num int | NaN

fun js_plus :: "jsnum \<Rightarrow> int \<Rightarrow> jsnum" where
  "js_plus (Num a) k = Num (a + k)"
| "js_plus NaN k = NaN"

text \<open>
  \<open>x % n\<close> for an array length \<open>n\<close>: the remainder takes the sign of the dividend, and
  a zero divisor gives \<open>NaN\<close> (JavaScript raises nothing here).
\<close>

fun js_rem :: "jsnum \<Rightarrow> nat \<Rightarrow> jsnum" where
  "js_rem (Num a) n = (if n = 0 then NaN else Num (sgn a * (\<bar>a\<bar> mod int n)))"
| "js_rem NaN n = NaN"

text \<open>\<open>xs[i]\<close>: \<open>undefined\<close> (here \<open>None\<close>) outside the array and for \<open>NaN\<close>.\<close>

fun js_at :: "'a list \<Rightarrow> jsnum \<Rightarrow> 'a option" where
  "js_at xs (Num i) = (if 0 \<le> i \<and> i < int (length xs) then Some (xs ! nat i) else None)"
| "js_at xs NaN = None"

text \<open>
  \<open>base.includes(s)\<close>: some position of \<open>base\<close> starts an occurrence of \<open>s\<close>.
  A \<open>string\<close> is the sequence of code units of the JavaScript string.
\<close>

fun js_includes :: "string \<Rightarrow> string \<Rightarrow> bool" where
  "js_includes [] s = (s = [])"
| "js_includes (c # cs) s = (prefix s (c # cs) \<or> js_includes cs s)"

section \<open>Select.tsx: data model\<close>

record SelectOption =
  label :: string
  val :: string

text \<open>
  The props the claims depend on. \<open>vals\<close> is the prop \<open>values\<close> (\<open>None\<close> is
  \<open>undefined\<close>); \<open>initialValue = None\<close> stands for an \<open>initialValue\<close> that is
  \<open>undefined\<close> or otherwise falsy, which is what the component tests;
  \<open>hasOnOptionSelected\<close> says whether the callback \<open>onOptionSelected\<close> was passed;
  \<open>isLoading\<close> is false when the prop is absent.
\<close>

record 'v SelectProps =
  vals :: "'v list option"
  toOption :: "'v \<Rightarrow> SelectOption"
  initialValue :: "'v option"
  hasOnOptionSelected :: bool
  isLoading :: bool

text \<open>
  The component's four \<open>useState\<close> cells together with the caller's \<open>inputValue\<close>,
  which the component reads as a prop and writes through \<open>setInputValue\<close>.
\<close>

record SelectState =
  inputValue :: string
  showOptions :: bool
  shouldUpdateInput :: bool
  currentFocusedOption :: jsnum
  selectedOption :: "SelectOption option"

text \<open>What a key handler did to the event besides changing state.\<close>

record KeyFlags =
  defaultPrevented :: bool
  propagationStopped :: bool

definition noFlags :: KeyFlags where
  "noFlags = \<lparr>defaultPrevented = False, propagationStopped = False\<rparr>"

section \<open>Select.tsx: options and filtering\<close>

text \<open>The destructuring default \<open>values = []\<close>.\<close>

definition valuesOrDefault :: "'v SelectProps \<Rightarrow> 'v list" where
  "valuesOrDefault p = (case vals p of None \<Rightarrow> [] | Some vs \<Rightarrow> vs)"

definition options :: "'v SelectProps \<Rightarrow> SelectOption list" where
  "options p = map (toOption p) (valuesOrDefault p)"

text \<open>
  \<open>includesSubstring(compared)(base)\<close>. The built-in \<open>toLowerCase\<close> is the
  parameter \<open>lc\<close> of every definition that filters.
\<close>

definition includesSubstring :: "(string \<Rightarrow> string) \<Rightarrow> string \<Rightarrow> string \<Rightarrow> bool" where
  "includesSubstring lc compared base = js_includes (lc base) (lc compared)"

definition filterOptions ::
  "(string \<Rightarrow> string) \<Rightarrow> string \<Rightarrow> SelectOption list \<Rightarrow> SelectOption list" where
  "filterOptions lc inp opts =
     (if length inp = 0 then opts
      else filter (\<lambda>opt. includesSubstring lc inp (label opt) \<or> includesSubstring lc inp (val opt))
             opts)"

text \<open>The memo \<open>filteredOptions\<close> of a render: a function of the props and the input text.\<close>

definition filteredOptions ::
  "(string \<Rightarrow> string) \<Rightarrow> 'v SelectProps \<Rightarrow> SelectState \<Rightarrow> SelectOption list" where
  "filteredOptions lc p s = filterOptions lc (inputValue s) (options p)"

text \<open>An ASCII instance of \<open>toLowerCase\<close>, for evaluating the model on examples.\<close>

definition asciiLower :: "string \<Rightarrow> string" where
  "asciiLower =
     map (\<lambda>c. case map_of (zip ''ABCDEFGHIJKLMNOPQRSTUVWXYZ'' ''abcdefghijklmnopqrstuvwxyz'') c of
                Some l \<Rightarrow> l
              | None \<Rightarrow> c)"

section \<open>Select.tsx: event handlers and effects\<close>

definition handleOptionClick :: "SelectState \<Rightarrow> SelectOption \<Rightarrow> SelectState" where
  "handleOptionClick s opt = s\<lparr>selectedOption := Some opt, shouldUpdateInput := True\<rparr>"

definition handleFocus :: "SelectState \<Rightarrow> SelectState" where
  "handleFocus s = s\<lparr>inputValue := [], showOptions := True\<rparr>"

definition handleChange :: "SelectState \<Rightarrow> string \<Rightarrow> SelectState" where
  "handleChange s t = s\<lparr>inputValue := t\<rparr>"

definition specialKeys :: "string list" where
  "specialKeys = [''ArrowUp'', ''ArrowDown'', ''Enter'', ''Escape'']"

definition isSpecialKey :: "string \<Rightarrow> bool" where
  "isSpecialKey k = (k \<in> set specialKeys)"

definition handleKeyDown ::
  "(string \<Rightarrow> string) \<Rightarrow> 'v SelectProps \<Rightarrow> SelectState \<Rightarrow> string \<Rightarrow> SelectState \<times> KeyFlags" where
  "handleKeyDown lc p s k =
     (let fo = filteredOptions lc p s; n = length fo in
      if \<not> isSpecialKey k then (s, noFlags)
      else if \<not> showOptions s then
        (if k = ''Escape'' then (s, noFlags) else (s\<lparr>showOptions := True\<rparr>, noFlags))
      else if k = ''Escape'' then
        (s\<lparr>shouldUpdateInput := True\<rparr>, noFlags\<lparr>propagationStopped := True\<rparr>)
      else if k = ''ArrowDown'' then
        (s\<lparr>currentFocusedOption := js_rem (js_plus (currentFocusedOption s) 1) n\<rparr>, noFlags)
      else if k = ''ArrowUp'' then
        (s\<lparr>currentFocusedOption :=
             js_rem (js_plus (js_plus (currentFocusedOption s) (- 1)) (int n)) n\<rparr>, noFlags)
      else if k = ''Enter'' then
        (if currentFocusedOption s = Num (- 1) then (s, noFlags)
         else (s\<lparr>selectedOption :=
                    (case js_at fo (currentFocusedOption s) of
                       Some opt \<Rightarrow> Some opt
                     | None \<Rightarrow> selectedOption s),
                  shouldUpdateInput := True\<rparr>,
               noFlags\<lparr>defaultPrevented := True\<rparr>))
      else (s, noFlags))"

text \<open>
  The callback that \<open>handleBlur\<close> debounces by 150 ms. The closure tests the flag of
  the render that created it; the flag is false in every render an event can reach (a
  render with the flag set is followed at once by the resync effect), as it is in the
  state the callback runs in.
\<close>

definition handleBlurCallback :: "SelectState \<Rightarrow> SelectState" where
  "handleBlurCallback s = (if shouldUpdateInput s then s else s\<lparr>shouldUpdateInput := True\<rparr>)"

text \<open>The document click listener; \<open>inside\<close> is \<open>inputRef.current?.contains(e.target)\<close>.\<close>

definition handleClickOutside :: "SelectState \<Rightarrow> bool \<Rightarrow> SelectState" where
  "handleClickOutside s inside =
     (if inside then s else s\<lparr>showOptions := False, shouldUpdateInput := True\<rparr>)"

text \<open>The first effect: the resync step.\<close>

definition resyncEffect :: "SelectState \<Rightarrow> SelectState" where
  "resyncEffect s =
     (if \<not> shouldUpdateInput s then s
      else s\<lparr>inputValue := (case selectedOption s of Some opt \<Rightarrow> label opt | None \<Rightarrow> []),
             shouldUpdateInput := False,
             showOptions := False,
             currentFocusedOption := Num (- 1)\<rparr>)"

text \<open>
  The third effect. The result is \<open>None\<close> when the effect returns without calling
  \<open>onOptionSelected\<close>, and \<open>Some r\<close> when it calls it with \<open>r\<close> (\<open>r = None\<close> is
  \<open>undefined\<close>). \<open>toValue\<close> is the effect's inner function.
\<close>

definition toValue :: "'v SelectProps \<Rightarrow> SelectOption \<Rightarrow> 'v option" where
  "toValue p opt = find (\<lambda>v. val (toOption p v) = val opt) (valuesOrDefault p)"

definition onOptionSelectedEffect :: "'v SelectProps \<Rightarrow> SelectState \<Rightarrow> 'v option option" where
  "onOptionSelectedEffect p s =
     (if \<not> hasOnOptionSelected p then None
      else case selectedOption s of None \<Rightarrow> None | Some opt \<Rightarrow> Some (toValue p opt))"

section \<open>Select.tsx: mounting, rendering and the transition function\<close>

text \<open>The state of the first render; \<open>iv\<close> is the caller's input text at mount.\<close>

definition initialState :: "'v SelectProps \<Rightarrow> string \<Rightarrow> SelectState" where
  "initialState p iv =
     \<lparr>inputValue = iv,
      showOptions = False,
      shouldUpdateInput = True,
      currentFocusedOption = Num (- 1),
      selectedOption =
        (case initialValue p of Some v \<Rightarrow> Some (toOption p v) | None \<Rightarrow> js_at (options p) (Num 0))\<rparr>"

definition mount :: "'v SelectProps \<Rightarrow> string \<Rightarrow> SelectState" where
  "mount p iv = resyncEffect (initialState p iv)"

text \<open>
  The rows of the \<open>ul\<close> element, in document order; \<open>None\<close> when the list is not
  rendered. An option row carries its index, its option and its \<open>aria-selected\<close>.
\<close>

datatype row = LoadingPlaceholder | OptionRow nat SelectOption bool | NoOptionsPlaceholder

definition optionRows :: "SelectState \<Rightarrow> SelectOption list \<Rightarrow> row list" where
  "optionRows s fo =
     map (\<lambda>(index, opt). OptionRow index opt (Num (int index) = currentFocusedOption s))
       (enumerate 0 fo)"

definition renderList ::
  "(string \<Rightarrow> string) \<Rightarrow> 'v SelectProps \<Rightarrow> SelectState \<Rightarrow> row list option" where
  "renderList lc p s =
     (let fo = filteredOptions lc p s in
      if \<not> showOptions s then None
      else Some ((if isLoading p then [LoadingPlaceholder] else [])
                 @ (if length fo > 0 then optionRows s fo else [])
                 @ (if length fo = 0 \<and> \<not> isLoading p then [NoOptionsPlaceholder] else [])))"

text \<open>The option of row \<open>i\<close>, when that row is on screen.\<close>

definition renderedOption ::
  "(string \<Rightarrow> string) \<Rightarrow> 'v SelectProps \<Rightarrow> SelectState \<Rightarrow> nat \<Rightarrow> SelectOption option" where
  "renderedOption lc p s i =
     (if showOptions s then js_at (filteredOptions lc p s) (Num (int i)) else None)"

text \<open>
  The events the component reacts to. \<open>Focus\<close> is the input's \<open>onFocus\<close> and the toggle
  button's \<open>onClick\<close>; \<open>OptionClick i\<close> and \<open>MouseEnter i\<close> are the handlers of the
  button in row \<open>i\<close>, which exist only while that row is rendered; \<open>BlurTimeout\<close> is the
  debounced blur callback being run by its timer.
\<close>

datatype event =
    Focus
  | Change string
  | KeyDown string
  | OptionClick nat
  | MouseEnter nat
  | DocumentClick bool
  | BlurTimeout

fun handle :: "(string \<Rightarrow> string) \<Rightarrow> 'v SelectProps \<Rightarrow> SelectState \<Rightarrow> event \<Rightarrow> SelectState" where
  "handle lc p s Focus = handleFocus s"
| "handle lc p s (Change t) = handleChange s t"
| "handle lc p s (KeyDown k) = fst (handleKeyDown lc p s k)"
| "handle lc p s (OptionClick i) =
     (case renderedOption lc p s i of Some opt \<Rightarrow> handleOptionClick s opt | None \<Rightarrow> s)"
| "handle lc p s (MouseEnter i) =
     (case renderedOption lc p s i of
        Some opt \<Rightarrow> s\<lparr>currentFocusedOption := Num (int i)\<rparr>
      | None \<Rightarrow> s)"
| "handle lc p s (DocumentClick inside) = handleClickOutside s inside"
| "handle lc p s BlurTimeout = handleBlurCallback s"

text \<open>One transition: the handler's state updates, then the resync effect of the re-render.\<close>

definition step :: "(string \<Rightarrow> string) \<Rightarrow> 'v SelectProps \<Rightarrow> SelectState \<Rightarrow> event \<Rightarrow> SelectState" where
  "step lc p s ev = resyncEffect (handle lc p s ev)"

definition run ::
  "(string \<Rightarrow> string) \<Rightarrow> 'v SelectProps \<Rightarrow> SelectState \<Rightarrow> event list \<Rightarrow> SelectState" where
  "run lc p s evs = foldl (step lc p) s evs"

section \<open>useDebounce\<close>

text \<open>
  The timers of one \<open>useDebounce\<close> instance on a discrete clock. A pending timer holds
  the argument its callback will be called with; \<open>fired\<close> logs the calls of the callback.
  Timer ids are positive, so an id stored in \<open>debounceRef\<close> is truthy.
\<close>

record 'a timer =
  tid :: nat
  due :: nat
  arg :: 'a

record 'a debounceState =
  now :: nat
  nextId :: nat
  pending :: "'a timer list"
  fired :: "'a list"
  debounceRef :: "nat option"

definition initialDebounce :: "'a debounceState" where
  "initialDebounce = \<lparr>now = 0, nextId = 1, pending = [], fired = [], debounceRef = None\<rparr>"

definition setTimeout :: "'a \<Rightarrow> nat \<Rightarrow> 'a debounceState \<Rightarrow> nat \<times> 'a debounceState" where
  "setTimeout a delay r =
     (nextId r,
      r\<lparr>nextId := Suc (nextId r),
        pending := pending r @ [\<lparr>tid = nextId r, due = now r + delay, arg = a\<rparr>]\<rparr>)"

definition clearTimeout :: "nat \<Rightarrow> 'a debounceState \<Rightarrow> 'a debounceState" where
  "clearTimeout i r = r\<lparr>pending := filter (\<lambda>t. tid t \<noteq> i) (pending r)\<rparr>"

text \<open>The function \<open>debounce(callback, delay)\<close> returns, called with \<open>a\<close>.\<close>

definition debounced :: "nat \<Rightarrow> 'a \<Rightarrow> 'a debounceState \<Rightarrow> 'a debounceState" where
  "debounced delay a r =
     (let r1 = (case debounceRef r of
                  Some i \<Rightarrow> if i \<noteq> 0 then clearTimeout i r else r
                | None \<Rightarrow> r);
          (timeout, r2) = setTimeout a delay r1
      in r2\<lparr>debounceRef := Some timeout\<rparr>)"

text \<open>Time passes: every timer that is due runs its callback, earliest first.\<close>

definition elapse :: "nat \<Rightarrow> 'a debounceState \<Rightarrow> 'a debounceState" where
  "elapse dt r =
     (let t = now r + dt in
      r\<lparr>now := t,
        pending := filter (\<lambda>x. \<not> due x \<le> t) (pending r),
        fired := fired r @ map arg (sort_key due (filter (\<lambda>x. due x \<le> t) (pending r)))\<rparr>)"

datatype 'a debounceEvent = Invoke 'a | Elapse nat

fun debounceStep :: "nat \<Rightarrow> 'a debounceState \<Rightarrow> 'a debounceEvent \<Rightarrow> 'a debounceState" where
  "debounceStep delay r (Invoke a) = debounced delay a r"
| "debounceStep delay r (Elapse dt) = elapse dt r"

definition debounceRun :: "nat \<Rightarrow> 'a debounceEvent list \<Rightarrow> 'a debounceState" where
  "debounceRun delay evs = foldl (debounceStep delay) initialDebounce evs"

section \<open>The demo application and the specification's vocabulary\<close>

text \<open>
  App.tsx passes \<open>toOption = ({ word }) => ({ label: word, value: word })\<close>; a
  \<open>Word\<close> is represented by its \<open>word\<close> field. \<open>appProps\<close> are the props App passes
  for a query result \<open>words\<close> and a fetching flag.
\<close>

definition wordOption :: "string \<Rightarrow> SelectOption" where
  "wordOption word = \<lparr>label = word, val = word\<rparr>"

definition appProps :: "string list option \<Rightarrow> bool \<Rightarrow> string SelectProps" where
  "appProps words isFetching =
     \<lparr>vals = words, toOption = wordOption, initialValue = None,
      hasOnOptionSelected = True, isLoading = isFetching\<rparr>"

text \<open>
  The specification's filter criterion, in its own words: the input text, case-folded,
  is a substring of the label, case-folded, or of the value, case-folded. A substring
  is a contiguous part: \<open>sublist xs ys\<close> says \<open>ys = ps @ xs @ ss\<close> for some \<open>ps\<close>, \<open>ss\<close>.
\<close>

definition caseInsensitiveSubstring :: "(string \<Rightarrow> string) \<Rightarrow> string \<Rightarrow> string \<Rightarrow> bool" where
  "caseInsensitiveSubstring lc inp txt = sublist (lc inp) (lc txt)"

definition keepsOption :: "(string \<Rightarrow> string) \<Rightarrow> string \<Rightarrow> SelectOption \<Rightarrow> bool" where
  "keepsOption lc inp opt =
     (caseInsensitiveSubstring lc inp (label opt) \<or> caseInsensitiveSubstring lc inp (val opt))"

text \<open>
  The specification's range for the focused-option index: an integer in
  \<open>[-1, filteredOptions.length - 1]\<close>.
\<close>

definition focusInRange :: "(string \<Rightarrow> string) \<Rightarrow> 'v SelectProps \<Rightarrow> SelectState \<Rightarrow> bool" where
  "focusInRange lc p s =
     (case currentFocusedOption s of
        Num i \<Rightarrow> - 1 \<le> i \<and> i < int (length (filteredOptions lc p s))
      | NaN \<Rightarrow> False)"

text \<open>An arrow key pressed while the dropdown is open and the filtered list is empty.\<close>

definition arrowOnEmptyList ::
  "(string \<Rightarrow> string) \<Rightarrow> 'v SelectProps \<Rightarrow> SelectState \<Rightarrow> event \<Rightarrow> bool" where
  "arrowOnEmptyList lc p s ev =
     (showOptions s \<and> filteredOptions lc p s = [] \<and>
      (ev = KeyDown ''ArrowDown'' \<or> ev = KeyDown ''ArrowUp''))"

fun isChange :: "event \<Rightarrow> bool" where
  "isChange (Change t) = True"
| "isChange ev = False"

text \<open>
  The specification of the debounce utility, in its own words: an invocation fires if and
  only if the delay passes before the next invocation of the wrapper.
  \<open>outlivesWindow remaining evs\<close> says that a call with \<open>remaining\<close> time to wait fires
  during the events \<open>evs\<close>; \<open>specFired\<close> lists the arguments of the calls that fire.
\<close>

fun outlivesWindow :: "nat \<Rightarrow> 'a debounceEvent list \<Rightarrow> bool" where
  "outlivesWindow remaining [] = False"
| "outlivesWindow remaining (Invoke b # rest) = False"
| "outlivesWindow remaining (Elapse dt # rest) =
     (if remaining \<le> dt then True else outlivesWindow (remaining - dt) rest)"

fun specFired :: "nat \<Rightarrow> 'a debounceEvent list \<Rightarrow> 'a list" where
  "specFired delay [] = []"
| "specFired delay (Invoke a # rest) =
     (if outlivesWindow delay rest then a # specFired delay rest else specFired delay rest)"
| "specFired delay (Elapse dt # rest) = specFired delay rest"

text \<open>
  The invariant of a \<open>useDebounce\<close> instance: a pending timer, if there is one, is the
  only one, and it is the timer \<open>debounceRef\<close> holds.
\<close>

definition singleTimer :: "'a debounceState \<Rightarrow> bool" where
  "singleTimer r =
     (0 < nextId r \<and>
      (case debounceRef r of
         None \<Rightarrow> pending r = []
       | Some i \<Rightarrow> 0 < i \<and> i < nextId r \<and>
           (case pending r of [] \<Rightarrow> True | t # ts \<Rightarrow> ts = [] \<and> tid t = i)))"

definition pendingFires :: "'a debounceState \<Rightarrow> 'a debounceEvent list \<Rightarrow> 'a list" where
  "pendingFires r evs =
     (case pending r of
        [] \<Rightarrow> []
      | t # ts \<Rightarrow> if outlivesWindow (due t - now r) evs then [arg t] else [])"

text \<open>Unfolding rules that evaluate the component on a concrete input.\<close>

lemmas select_eval =
  run_def step_def mount_def initialState_def resyncEffect_def handleFocus_def handleChange_def
  handleKeyDown_def Let_def isSpecialKey_def specialKeys_def filteredOptions_def filterOptions_def
  options_def valuesOrDefault_def appProps_def wordOption_def noFlags_def renderedOption_def
  includesSubstring_def asciiLower_def handleOptionClick_def handleClickOutside_def
  handleBlurCallback_def

lemmas debounce_eval =
  debounceRun_def debounced_def setTimeout_def clearTimeout_def elapse_def initialDebounce_def
  Let_def

section \<open>Filtering\<close>

lemma js_includes_sublist: "js_includes base s = sublist s base"
  by (induction base) (auto simp: sublist_Cons_right)

lemma keepsOption_iff:
  "keepsOption lc inp opt =
     (includesSubstring lc inp (label opt) \<or> includesSubstring lc inp (val opt))"
  by (simp add: keepsOption_def caseInsensitiveSubstring_def includesSubstring_def
      js_includes_sublist)

lemma filterOptions_filter:
  "inp \<noteq> [] \<Longrightarrow> filterOptions lc inp opts = filter (keepsOption lc inp) opts"
  by (simp add: filterOptions_def keepsOption_iff cong: filter_cong)

lemma length_filterOptions: "length (filterOptions lc inp opts) \<le> length opts"
  by (simp add: filterOptions_def)

text \<open>
  Claim C3. For every values list, mapping function and input text: with empty input
  text the filtered list is the full mapped option list, unchanged; with non-empty input
  text it is the mapped option list filtered by the specification's criterion, so an
  option is kept if and only if the input text is a case-insensitive substring of its
  label or of its value, and the kept options stand in their original relative order.
\<close>

theorem filteredOptions_spec:
  "(inputValue s = [] \<longrightarrow> filteredOptions lc p s = map (toOption p) (valuesOrDefault p)) \<and>
   (inputValue s \<noteq> [] \<longrightarrow>
      filteredOptions lc p s =
        filter (keepsOption lc (inputValue s)) (map (toOption p) (valuesOrDefault p))
      \<and> (\<forall>opt. opt \<in> set (filteredOptions lc p s) \<longleftrightarrow>
             opt \<in> set (map (toOption p) (valuesOrDefault p)) \<and> keepsOption lc (inputValue s) opt)
      \<and> subseq (filteredOptions lc p s) (map (toOption p) (valuesOrDefault p)))"
  by (simp add: filteredOptions_def options_def filterOptions_filter)
     (simp add: filterOptions_def)

theorem filteredOptions_spec_witness:
  "filteredOptions asciiLower (appProps (Some [''cat'', ''Dog'', ''Scatter'']) False)
     \<lparr>inputValue = [], showOptions = True, shouldUpdateInput = False,
      currentFocusedOption = Num (- 1), selectedOption = None\<rparr>
     = [wordOption ''cat'', wordOption ''Dog'', wordOption ''Scatter''] \<and>
   filteredOptions asciiLower (appProps (Some [''cat'', ''Dog'', ''Scatter'']) False)
     \<lparr>inputValue = ''CA'', showOptions = True, shouldUpdateInput = False,
      currentFocusedOption = Num (- 1), selectedOption = None\<rparr>
     = filter (keepsOption asciiLower ''CA'')
         [wordOption ''cat'', wordOption ''Dog'', wordOption ''Scatter''] \<and>
   filteredOptions asciiLower (appProps (Some [''cat'', ''Dog'', ''Scatter'']) False)
     \<lparr>inputValue = ''CA'', showOptions = True, shouldUpdateInput = False,
      currentFocusedOption = Num (- 1), selectedOption = None\<rparr>
     = [wordOption ''cat'', wordOption ''Scatter'']"
  using
    filteredOptions_spec [of "\<lparr>inputValue = [], showOptions = True, shouldUpdateInput = False,
      currentFocusedOption = Num (- 1), selectedOption = None\<rparr>" asciiLower
      "appProps (Some [''cat'', ''Dog'', ''Scatter'']) False"]
    filteredOptions_spec [of "\<lparr>inputValue = ''CA'', showOptions = True, shouldUpdateInput = False,
      currentFocusedOption = Num (- 1), selectedOption = None\<rparr>" asciiLower
      "appProps (Some [''cat'', ''Dog'', ''Scatter'']) False"]
  by (simp add: appProps_def valuesOrDefault_def filteredOptions_def filterOptions_def
      options_def keepsOption_iff includesSubstring_def asciiLower_def wordOption_def)

section \<open>Keyboard handling\<close>

lemma handleKeyDown_Escape:
  "handleKeyDown lc p s ''Escape'' =
     (if showOptions s then (s\<lparr>shouldUpdateInput := True\<rparr>, noFlags\<lparr>propagationStopped := True\<rparr>)
      else (s, noFlags))"
  by (simp add: handleKeyDown_def isSpecialKey_def specialKeys_def Let_def)

lemma handleKeyDown_ArrowDown:
  "handleKeyDown lc p s ''ArrowDown'' =
     (if showOptions s
      then (s\<lparr>currentFocusedOption :=
                 js_rem (js_plus (currentFocusedOption s) 1) (length (filteredOptions lc p s))\<rparr>,
            noFlags)
      else (s\<lparr>showOptions := True\<rparr>, noFlags))"
  by (simp add: handleKeyDown_def isSpecialKey_def specialKeys_def Let_def)

lemma handleKeyDown_ArrowUp:
  "handleKeyDown lc p s ''ArrowUp'' =
     (if showOptions s
      then (s\<lparr>currentFocusedOption :=
                 js_rem (js_plus (js_plus (currentFocusedOption s) (- 1))
                           (int (length (filteredOptions lc p s))))
                   (length (filteredOptions lc p s))\<rparr>,
            noFlags)
      else (s\<lparr>showOptions := True\<rparr>, noFlags))"
  by (simp add: handleKeyDown_def isSpecialKey_def specialKeys_def Let_def)

lemma handleKeyDown_Enter:
  "handleKeyDown lc p s ''Enter'' =
     (if \<not> showOptions s then (s\<lparr>showOptions := True\<rparr>, noFlags)
      else if currentFocusedOption s = Num (- 1) then (s, noFlags)
      else (s\<lparr>selectedOption :=
                 (case js_at (filteredOptions lc p s) (currentFocusedOption s) of
                    Some opt \<Rightarrow> Some opt
                  | None \<Rightarrow> selectedOption s),
               shouldUpdateInput := True\<rparr>,
            noFlags\<lparr>defaultPrevented := True\<rparr>))"
  by (simp add: handleKeyDown_def isSpecialKey_def specialKeys_def Let_def)

lemma handleKeyDown_other:
  "\<not> isSpecialKey k \<Longrightarrow> handleKeyDown lc p s k = (s, noFlags)"
  by (simp add: handleKeyDown_def)

lemma isSpecialKey_cases:
  "isSpecialKey k \<longleftrightarrow> k = ''ArrowUp'' \<or> k = ''ArrowDown'' \<or> k = ''Enter'' \<or> k = ''Escape''"
  by (auto simp: isSpecialKey_def specialKeys_def)

lemma js_rem_zero: "js_rem x 0 = NaN"
  by (cases x) simp_all

lemma js_rem_nonneg: "0 \<le> a \<Longrightarrow> 0 < n \<Longrightarrow> js_rem (Num a) n = Num (a mod int n)"
  by (simp add: sgn_if)

text \<open>
  Claim C1, where the code departs from it. The claim says that both arrow keys leave the
  focused index unchanged when the filtered list is empty. The handlers compute
  \<open>(prev + 1) % 0\<close> and \<open>(prev - 1 + 0) % 0\<close>: in every open state with an empty
  filtered list either key stores \<open>NaN\<close>. The index then stays \<open>NaN\<close> under further
  arrow keys whatever options the props \<open>p'\<close> supply later, and since \<open>NaN\<close> is not
  \<open>-1\<close>, Enter no longer returns early: it closes the dropdown.
\<close>

theorem arrow_keys_on_empty_list:
  assumes "showOptions s" and "\<not> shouldUpdateInput s" and "filteredOptions lc p s = []"
  shows "currentFocusedOption (step lc p s (KeyDown ''ArrowDown'')) = NaN \<and>
         currentFocusedOption (step lc p s (KeyDown ''ArrowUp'')) = NaN \<and>
         currentFocusedOption
           (step lc p' (step lc p s (KeyDown ''ArrowDown'')) (KeyDown ''ArrowDown'')) = NaN \<and>
         \<not> showOptions (step lc p' (step lc p s (KeyDown ''ArrowDown'')) (KeyDown ''Enter''))"
  using assms
  by (simp add: step_def handleKeyDown_ArrowDown handleKeyDown_ArrowUp handleKeyDown_Enter
      resyncEffect_def js_rem_zero)

theorem arrow_keys_on_empty_list_witness:
  "showOptions (run asciiLower (appProps None True) (mount (appProps None True) []) [Focus]) \<and>
   \<not> shouldUpdateInput
       (run asciiLower (appProps None True) (mount (appProps None True) []) [Focus]) \<and>
   filteredOptions asciiLower (appProps None True)
       (run asciiLower (appProps None True) (mount (appProps None True) []) [Focus]) = [] \<and>
   currentFocusedOption
       (run asciiLower (appProps None True) (mount (appProps None True) []) [Focus]) = Num (- 1) \<and>
   currentFocusedOption
       (step asciiLower (appProps None True)
          (run asciiLower (appProps None True) (mount (appProps None True) []) [Focus])
          (KeyDown ''ArrowDown'')) = NaN \<and>
   currentFocusedOption
       (step asciiLower (appProps (Some [''cat'']) False)
          (step asciiLower (appProps None True)
             (run asciiLower (appProps None True) (mount (appProps None True) []) [Focus])
             (KeyDown ''ArrowDown''))
          (KeyDown ''ArrowDown'')) = NaN"
  using arrow_keys_on_empty_list
    [of "run asciiLower (appProps None True) (mount (appProps None True) []) [Focus]"
        asciiLower "appProps None True" "appProps (Some [''cat'']) False"]
  by (simp add: select_eval)

text \<open>
  With a non-empty filtered list of length \<open>n\<close> and a focused index \<open>i \<ge> -1\<close>, arrow-down
  moves the index to \<open>(i + 1) mod n\<close> and arrow-up to \<open>(i - 1 + n) mod n\<close>.
\<close>

theorem arrow_keys_wrap:
  assumes "showOptions s" and "\<not> shouldUpdateInput s"
    and "currentFocusedOption s = Num i" and "- 1 \<le> i"
    and "filteredOptions lc p s \<noteq> []"
  shows "currentFocusedOption (step lc p s (KeyDown ''ArrowDown''))
           = Num ((i + 1) mod int (length (filteredOptions lc p s))) \<and>
         currentFocusedOption (step lc p s (KeyDown ''ArrowUp''))
           = Num ((i - 1 + int (length (filteredOptions lc p s)))
                   mod int (length (filteredOptions lc p s)))"
proof -
  let ?n = "length (filteredOptions lc p s)"
  have n: "0 < ?n" using assms(5) by simp
  have down: "js_rem (Num (i + 1)) ?n = Num ((i + 1) mod int ?n)"
    using assms(4) n by (intro js_rem_nonneg) auto
  have up: "js_rem (Num (i - 1 + int ?n)) ?n = Num ((i - 1 + int ?n) mod int ?n)"
  proof (cases "0 \<le> i - 1 + int ?n")
    case True
    then show ?thesis using n by (intro js_rem_nonneg) auto
  next
    case False
    moreover have "1 \<le> int ?n" using n by linarith
    ultimately have "i = - 1" and "int ?n = 1" using assms(4) by linarith+
    then have "i = - 1" and "?n = 1" by simp_all
    then show ?thesis by simp
  qed
  show ?thesis
    using assms(1-3) down up
    by (simp add: step_def handleKeyDown_ArrowDown handleKeyDown_ArrowUp resyncEffect_def)
qed

theorem arrow_keys_wrap_witness:
  "showOptions (run asciiLower (appProps (Some [''ant'', ''bee'', ''cow'']) False)
      (mount (appProps (Some [''ant'', ''bee'', ''cow'']) False) []) [Focus]) \<and>
   currentFocusedOption (run asciiLower (appProps (Some [''ant'', ''bee'', ''cow'']) False)
      (mount (appProps (Some [''ant'', ''bee'', ''cow'']) False) []) [Focus]) = Num (- 1) \<and>
   length (filteredOptions asciiLower (appProps (Some [''ant'', ''bee'', ''cow'']) False)
      (run asciiLower (appProps (Some [''ant'', ''bee'', ''cow'']) False)
        (mount (appProps (Some [''ant'', ''bee'', ''cow'']) False) []) [Focus])) = 3 \<and>
   currentFocusedOption (run asciiLower (appProps (Some [''ant'', ''bee'', ''cow'']) False)
      (mount (appProps (Some [''ant'', ''bee'', ''cow'']) False) [])
      [Focus, KeyDown ''ArrowDown'']) = Num 0 \<and>
   currentFocusedOption (run asciiLower (appProps (Some [''ant'', ''bee'', ''cow'']) False)
      (mount (appProps (Some [''ant'', ''bee'', ''cow'']) False) [])
      [Focus, KeyDown ''ArrowUp'']) = Num 1"
  using arrow_keys_wrap
    [of "run asciiLower (appProps (Some [''ant'', ''bee'', ''cow'']) False)
           (mount (appProps (Some [''ant'', ''bee'', ''cow'']) False) []) [Focus]"
        "- 1" asciiLower "appProps (Some [''ant'', ''bee'', ''cow'']) False"]
  by (simp add: select_eval)

text \<open>
  Claim C6. Escape while the dropdown is open sets the input text to the selected
  option's label (the empty string when nothing is selected), closes the dropdown and
  leaves the selected option as it was. Escape while the dropdown is closed returns
  from the handler with the state untouched and the event unmarked, and the transition
  leaves the state as it was.
\<close>

theorem escape_key:
  "(showOptions s \<longrightarrow>
      step lc p s (KeyDown ''Escape'') =
        s\<lparr>inputValue := (case selectedOption s of Some opt \<Rightarrow> label opt | None \<Rightarrow> []),
          shouldUpdateInput := False, showOptions := False, currentFocusedOption := Num (- 1)\<rparr>
      \<and> selectedOption (step lc p s (KeyDown ''Escape'')) = selectedOption s
      \<and> \<not> showOptions (step lc p s (KeyDown ''Escape''))) \<and>
   (\<not> showOptions s \<longrightarrow>
      handleKeyDown lc p s ''Escape'' = (s, noFlags)
      \<and> (\<not> shouldUpdateInput s \<longrightarrow> step lc p s (KeyDown ''Escape'') = s))"
  by (simp add: step_def handleKeyDown_Escape resyncEffect_def)

theorem escape_key_witness:
  "showOptions (run asciiLower (appProps (Some [''cat'', ''Dog'']) False)
      (mount (appProps (Some [''cat'', ''Dog'']) False) []) [Focus, Change ''do'']) \<and>
   run asciiLower (appProps (Some [''cat'', ''Dog'']) False)
      (mount (appProps (Some [''cat'', ''Dog'']) False) [])
      [Focus, Change ''do'', KeyDown ''Escape'']
     = \<lparr>inputValue = ''cat'', showOptions = False, shouldUpdateInput = False,
        currentFocusedOption = Num (- 1), selectedOption = Some (wordOption ''cat'')\<rparr> \<and>
   \<not> showOptions (mount (appProps (Some [''cat'', ''Dog'']) False) []) \<and>
   \<not> shouldUpdateInput (mount (appProps (Some [''cat'', ''Dog'']) False) []) \<and>
   step asciiLower (appProps (Some [''cat'', ''Dog'']) False)
      (mount (appProps (Some [''cat'', ''Dog'']) False) []) (KeyDown ''Escape'')
     = mount (appProps (Some [''cat'', ''Dog'']) False) []"
  using
    escape_key [of "run asciiLower (appProps (Some [''cat'', ''Dog'']) False)
      (mount (appProps (Some [''cat'', ''Dog'']) False) []) [Focus, Change ''do'']"
      asciiLower "appProps (Some [''cat'', ''Dog'']) False"]
    escape_key [of "mount (appProps (Some [''cat'', ''Dog'']) False) []"
      asciiLower "appProps (Some [''cat'', ''Dog'']) False"]
  by (simp add: select_eval)

section \<open>Mounting and the selection callback\<close>

text \<open>
  Claim C10. When no initial value is supplied, the selected option of the first render is
  the first element of the mapped option list, and nothing when the values list is empty
  or undefined. The resync flag starts true, so the resync that runs on mount replaces the
  caller's input text, whatever it was, by that option's label, or by the empty string
  when there is no option; it leaves the selected option as it is.
\<close>

theorem mount_without_initialValue:
  assumes "initialValue p = None"
  shows "selectedOption (initialState p iv) =
           (case map (toOption p) (valuesOrDefault p) of [] \<Rightarrow> None | opt # rest \<Rightarrow> Some opt) \<and>
         shouldUpdateInput (initialState p iv) \<and>
         selectedOption (mount p iv) = selectedOption (initialState p iv) \<and>
         inputValue (mount p iv) =
           (case map (toOption p) (valuesOrDefault p) of [] \<Rightarrow> [] | opt # rest \<Rightarrow> label opt) \<and>
         (vals p = None \<or> vals p = Some [] \<longrightarrow>
            selectedOption (initialState p iv) = None \<and> inputValue (mount p iv) = [])"
  using assms
  by (auto simp add: initialState_def mount_def resyncEffect_def options_def valuesOrDefault_def
      split: list.splits option.splits)

theorem mount_without_initialValue_witness:
  "initialValue (appProps (Some [''cat'', ''Dog'']) False) = None \<and>
   selectedOption (initialState (appProps (Some [''cat'', ''Dog'']) False) ''typed'')
     = Some (wordOption ''cat'') \<and>
   inputValue (mount (appProps (Some [''cat'', ''Dog'']) False) ''typed'') = ''cat'' \<and>
   initialValue (appProps None True) = None \<and>
   vals (appProps None True) = None \<and>
   selectedOption (initialState (appProps None True) ''typed'') = None \<and>
   inputValue (mount (appProps None True) ''typed'') = []"
  using
    mount_without_initialValue [of "appProps (Some [''cat'', ''Dog'']) False" "''typed''"]
    mount_without_initialValue [of "appProps None True" "''typed''"]
  by (simp add: appProps_def valuesOrDefault_def wordOption_def)

text \<open>
  Claim C7. When a selection callback is supplied and an option is selected, the effect
  that runs when the selected option or the values list changes calls the callback with
  \<open>toValue\<close> of the selected option. That result is a value \<open>v\<close> exactly when \<open>v\<close> is the
  first element of the values list whose mapped option has the selected option's value
  identifier, and it is undefined exactly when no element of the list matches.
\<close>

theorem onOptionSelected_reports_first_match:
  assumes "hasOnOptionSelected p" and "selectedOption s = Some opt"
  shows "onOptionSelectedEffect p s = Some (toValue p opt) \<and>
         (toValue p opt = Some v \<longleftrightarrow>
           (\<exists>i < length (valuesOrDefault p). valuesOrDefault p ! i = v
              \<and> val (toOption p v) = val opt
              \<and> (\<forall>j < i. val (toOption p (valuesOrDefault p ! j)) \<noteq> val opt))) \<and>
         (toValue p opt = None \<longleftrightarrow>
           (\<forall>v \<in> set (valuesOrDefault p). val (toOption p v) \<noteq> val opt))"
  using assms
  by (auto simp add: onOptionSelectedEffect_def toValue_def find_Some_iff find_None_iff)

theorem onOptionSelected_reports_first_match_witness:
  "hasOnOptionSelected (appProps (Some [''ant'', ''cat'', ''cat'']) False) \<and>
   selectedOption (mount (appProps (Some [''ant'', ''cat'', ''cat'']) False) [])
     = Some (wordOption ''ant'') \<and>
   onOptionSelectedEffect (appProps (Some [''ant'', ''cat'', ''cat'']) False)
     (mount (appProps (Some [''ant'', ''cat'', ''cat'']) False) []) = Some (Some ''ant'') \<and>
   onOptionSelectedEffect (appProps (Some [''bee'']) False)
     (mount (appProps (Some [''ant'', ''cat'', ''cat'']) False) []) = Some None"
  using
    onOptionSelected_reports_first_match
      [of "appProps (Some [''ant'', ''cat'', ''cat'']) False"
          "mount (appProps (Some [''ant'', ''cat'', ''cat'']) False) []" "wordOption ''ant''"
          "''ant''"]
    onOptionSelected_reports_first_match
      [of "appProps (Some [''bee'']) False"
          "mount (appProps (Some [''ant'', ''cat'', ''cat'']) False) []" "wordOption ''ant''"
          "''ant''"]
  by (simp add: select_eval onOptionSelectedEffect_def toValue_def)

section \<open>An undefined values list\<close>

lemma options_undefined: "options (p\<lparr>vals := None\<rparr>) = options (p\<lparr>vals := Some []\<rparr>)"
  by (simp add: options_def valuesOrDefault_def)

lemma filteredOptions_cong:
  "options p = options q \<Longrightarrow> filteredOptions lc p s = filteredOptions lc q s"
  by (simp add: filteredOptions_def)

lemma handleKeyDown_cong:
  "options p = options q \<Longrightarrow> handleKeyDown lc p s k = handleKeyDown lc q s k"
  by (simp add: handleKeyDown_def filteredOptions_def)

lemma handle_cong:
  "options p = options q \<Longrightarrow> handle lc p s ev = handle lc q s ev"
  by (cases ev) (simp_all add: handleKeyDown_cong [of p q] renderedOption_def filteredOptions_def)

lemma step_cong: "options p = options q \<Longrightarrow> step lc p s ev = step lc q s ev"
  by (simp add: step_def handle_cong [of p q])

lemma run_cong: "options p = options q \<Longrightarrow> run lc p s evs = run lc q s evs"
  by (induction evs arbitrary: s) (simp_all add: run_def step_cong [of p q])

text \<open>
  Claim C8. The component binds \<open>values\<close> with the default \<open>[]\<close>, and every operation
  reads the list through that binding, so props with an undefined values list and the
  same props with the empty list give the same options, first render, mount, filtered
  list, key handling, transitions, runs, rendered rows and callback report. No operation
  of the component can raise on the defaulted list (\<open>map\<close>, \<open>filter\<close>, \<open>find\<close>, indexing
  and \<open>%\<close> return a value on every input), which is why the functions here have no
  error result.
\<close>

theorem undefined_values_as_empty:
  "valuesOrDefault (p\<lparr>vals := None\<rparr>) = [] \<and>
   options (p\<lparr>vals := None\<rparr>) = options (p\<lparr>vals := Some []\<rparr>) \<and>
   initialState (p\<lparr>vals := None\<rparr>) iv = initialState (p\<lparr>vals := Some []\<rparr>) iv \<and>
   mount (p\<lparr>vals := None\<rparr>) iv = mount (p\<lparr>vals := Some []\<rparr>) iv \<and>
   filteredOptions lc (p\<lparr>vals := None\<rparr>) s = filteredOptions lc (p\<lparr>vals := Some []\<rparr>) s \<and>
   handleKeyDown lc (p\<lparr>vals := None\<rparr>) s k = handleKeyDown lc (p\<lparr>vals := Some []\<rparr>) s k \<and>
   step lc (p\<lparr>vals := None\<rparr>) s ev = step lc (p\<lparr>vals := Some []\<rparr>) s ev \<and>
   run lc (p\<lparr>vals := None\<rparr>) s evs = run lc (p\<lparr>vals := Some []\<rparr>) s evs \<and>
   renderList lc (p\<lparr>vals := None\<rparr>) s = renderList lc (p\<lparr>vals := Some []\<rparr>) s \<and>
   onOptionSelectedEffect (p\<lparr>vals := None\<rparr>) s = onOptionSelectedEffect (p\<lparr>vals := Some []\<rparr>) s"
proof -
  let ?u = "p\<lparr>vals := None\<rparr>" and ?e = "p\<lparr>vals := Some []\<rparr>"
  have o: "options ?u = options ?e" by (rule options_undefined)
  have "initialState ?u iv = initialState ?e iv"
    by (simp add: initialState_def o split: option.split)
  moreover from this have "mount ?u iv = mount ?e iv" by (simp add: mount_def)
  moreover have "renderList lc ?u s = renderList lc ?e s"
    by (simp add: renderList_def Let_def filteredOptions_cong [OF o])
  moreover have "onOptionSelectedEffect ?u s = onOptionSelectedEffect ?e s"
    by (simp add: onOptionSelectedEffect_def toValue_def valuesOrDefault_def split: option.split)
  moreover have "valuesOrDefault ?u = []" by (simp add: valuesOrDefault_def)
  ultimately show ?thesis
    using o filteredOptions_cong [OF o] handleKeyDown_cong [OF o] step_cong [OF o] run_cong [OF o]
    by simp
qed

theorem undefined_values_as_empty_witness:
  "run asciiLower (appProps None True) (mount (appProps None True) ''x'')
      [Focus, Change ''ca'', KeyDown ''Enter'', DocumentClick False]
     = run asciiLower (appProps (Some []) True) (mount (appProps (Some []) True) ''x'')
      [Focus, Change ''ca'', KeyDown ''Enter'', DocumentClick False] \<and>
   renderList asciiLower (appProps None False)
      (run asciiLower (appProps None False) (mount (appProps None False) ''x'') [Focus])
     = Some [NoOptionsPlaceholder]"
  using
    undefined_values_as_empty [of "appProps None True" "''x''" asciiLower
      "mount (appProps None True) ''x''" "''Enter''" Focus
      "[Focus, Change ''ca'', KeyDown ''Enter'', DocumentClick False]"]
  by (simp add: select_eval renderList_def)

section \<open>The rendered list\<close>

lemma NoOptions_notin_optionRows: "NoOptionsPlaceholder \<notin> set (optionRows s fo)"
  by (auto simp: optionRows_def)

lemma optionRows_Nil: "optionRows s [] = []"
  by (simp add: optionRows_def)

lemma length_optionRows: "length (optionRows s fo) = length fo"
  by (simp add: optionRows_def)

text \<open>
  Claim C4, as the code has it. While the loading flag is set and the dropdown is open,
  the list starts with the loading placeholder row, followed by one option row for every
  filtered option: the option rows are rendered whether or not the component is loading.
  The no-options placeholder is never among the rows while loading, and when the
  filtered list is empty (as with undefined values) the loading placeholder is the only
  row.
\<close>

theorem loading_rows:
  assumes "isLoading p" and "showOptions s"
  shows "renderList lc p s = Some (LoadingPlaceholder # optionRows s (filteredOptions lc p s)) \<and>
         NoOptionsPlaceholder \<notin> set (LoadingPlaceholder # optionRows s (filteredOptions lc p s)) \<and>
         length (optionRows s (filteredOptions lc p s)) = length (filteredOptions lc p s) \<and>
         (filteredOptions lc p s = [] \<longrightarrow> renderList lc p s = Some [LoadingPlaceholder])"
  using assms
  by (simp add: renderList_def Let_def NoOptions_notin_optionRows length_optionRows
      optionRows_Nil)

theorem loading_rows_witness:
  "isLoading (appProps None True) \<and>
   showOptions (run asciiLower (appProps None True) (mount (appProps None True) []) [Focus]) \<and>
   filteredOptions asciiLower (appProps None True)
     (run asciiLower (appProps None True) (mount (appProps None True) []) [Focus]) = [] \<and>
   renderList asciiLower (appProps None True)
     (run asciiLower (appProps None True) (mount (appProps None True) []) [Focus])
     = Some [LoadingPlaceholder]"
  using loading_rows
    [of "appProps None True"
        "run asciiLower (appProps None True) (mount (appProps None True) []) [Focus]" asciiLower]
  by (simp add: select_eval)

text \<open>
  Claim C4 as stated fails: with one value, the loading flag set and the dropdown open,
  the list shows the loading placeholder and, after it, the option row.
\<close>

theorem loading_rows_counterexample:
  "isLoading (appProps (Some [''cat'']) True) \<and>
   showOptions (run asciiLower (appProps (Some [''cat'']) True)
      (mount (appProps (Some [''cat'']) True) []) [Focus]) \<and>
   renderList asciiLower (appProps (Some [''cat'']) True)
     (run asciiLower (appProps (Some [''cat'']) True)
        (mount (appProps (Some [''cat'']) True) []) [Focus])
     = Some [LoadingPlaceholder, OptionRow 0 (wordOption ''cat'') False]"
  by (simp add: select_eval renderList_def optionRows_def enumerate_eq_zip)

section \<open>Committing an option\<close>

text \<open>
  Claim C5, as the code has it. In an open dropdown, Enter with a focused index \<open>i\<close>
  that is a position of the filtered list (\<open>0 \<le> i < filteredOptions.length\<close>) makes
  \<open>filteredOptions[i]\<close> the selected option, sets the input text to its label, closes
  the dropdown and prevents the event's default; a click on the option row \<open>j\<close> does the
  same with \<open>filteredOptions[j]\<close>.
\<close>

theorem commit_option:
  assumes "showOptions s"
  shows "(currentFocusedOption s = Num i \<and> 0 \<le> i \<and> i < int (length (filteredOptions lc p s)) \<longrightarrow>
            step lc p s (KeyDown ''Enter'') =
              s\<lparr>selectedOption := Some (filteredOptions lc p s ! nat i),
                inputValue := label (filteredOptions lc p s ! nat i),
                shouldUpdateInput := False, showOptions := False,
                currentFocusedOption := Num (- 1)\<rparr>
            \<and> defaultPrevented (snd (handleKeyDown lc p s ''Enter''))) \<and>
         (j < length (filteredOptions lc p s) \<longrightarrow>
            step lc p s (OptionClick j) =
              s\<lparr>selectedOption := Some (filteredOptions lc p s ! j),
                inputValue := label (filteredOptions lc p s ! j),
                shouldUpdateInput := False, showOptions := False,
                currentFocusedOption := Num (- 1)\<rparr>)"
  using assms
  by (auto simp add: step_def handleKeyDown_Enter resyncEffect_def renderedOption_def
      handleOptionClick_def noFlags_def)

theorem commit_option_witness:
  "showOptions (run asciiLower (appProps (Some [''Dog'', ''cat'']) False)
      (mount (appProps (Some [''Dog'', ''cat'']) False) [])
      [Focus, Change ''ca'', KeyDown ''ArrowDown'']) \<and>
   currentFocusedOption (run asciiLower (appProps (Some [''Dog'', ''cat'']) False)
      (mount (appProps (Some [''Dog'', ''cat'']) False) [])
      [Focus, Change ''ca'', KeyDown ''ArrowDown'']) = Num 0 \<and>
   filteredOptions asciiLower (appProps (Some [''Dog'', ''cat'']) False)
     (run asciiLower (appProps (Some [''Dog'', ''cat'']) False)
        (mount (appProps (Some [''Dog'', ''cat'']) False) [])
        [Focus, Change ''ca'', KeyDown ''ArrowDown'']) = [wordOption ''cat''] \<and>
   run asciiLower (appProps (Some [''Dog'', ''cat'']) False)
      (mount (appProps (Some [''Dog'', ''cat'']) False) [])
      [Focus, Change ''ca'', KeyDown ''ArrowDown'', KeyDown ''Enter'']
     = \<lparr>inputValue = ''cat'', showOptions = False, shouldUpdateInput = False,
        currentFocusedOption = Num (- 1), selectedOption = Some (wordOption ''cat'')\<rparr> \<and>
   run asciiLower (appProps (Some [''Dog'', ''cat'']) False)
      (mount (appProps (Some [''Dog'', ''cat'']) False) [])
      [Focus, Change ''ca'', KeyDown ''ArrowDown'', OptionClick 0]
     = \<lparr>inputValue = ''cat'', showOptions = False, shouldUpdateInput = False,
        currentFocusedOption = Num (- 1), selectedOption = Some (wordOption ''cat'')\<rparr>"
  using commit_option
    [of "run asciiLower (appProps (Some [''Dog'', ''cat'']) False)
           (mount (appProps (Some [''Dog'', ''cat'']) False) [])
           [Focus, Change ''ca'', KeyDown ''ArrowDown'']"
        0 asciiLower "appProps (Some [''Dog'', ''cat'']) False" 0]
  by (simp add: select_eval)

text \<open>
  Claim C5 as stated fails for a focused index that is not below the length of the
  filtered list. After hovering the second row and typing \<open>ca\<close>, the focused index is 1
  and the filtered list has the one element \<open>cat\<close>: Enter finds no option at index 1,
  keeps the selected option \<open>Dog\<close> and sets the input text to \<open>Dog\<close>.
\<close>

theorem commit_option_counterexample:
  "showOptions (run asciiLower (appProps (Some [''Dog'', ''cat'']) False)
      (mount (appProps (Some [''Dog'', ''cat'']) False) [])
      [Focus, MouseEnter 1, Change ''ca'']) \<and>
   currentFocusedOption (run asciiLower (appProps (Some [''Dog'', ''cat'']) False)
      (mount (appProps (Some [''Dog'', ''cat'']) False) [])
      [Focus, MouseEnter 1, Change ''ca'']) = Num 1 \<and>
   filteredOptions asciiLower (appProps (Some [''Dog'', ''cat'']) False)
     (run asciiLower (appProps (Some [''Dog'', ''cat'']) False)
        (mount (appProps (Some [''Dog'', ''cat'']) False) [])
        [Focus, MouseEnter 1, Change ''ca'']) = [wordOption ''cat''] \<and>
   run asciiLower (appProps (Some [''Dog'', ''cat'']) False)
      (mount (appProps (Some [''Dog'', ''cat'']) False) [])
      [Focus, MouseEnter 1, Change ''ca'', KeyDown ''Enter'']
     = \<lparr>inputValue = ''Dog'', showOptions = False, shouldUpdateInput = False,
        currentFocusedOption = Num (- 1), selectedOption = Some (wordOption ''Dog'')\<rparr>"
  by (simp add: select_eval)

section \<open>The range of the focused index\<close>

lemma focusInRange_resync:
  "shouldUpdateInput s \<or> focusInRange lc p s \<Longrightarrow> focusInRange lc p (resyncEffect s)"
  by (auto simp: focusInRange_def resyncEffect_def)

lemma focusInRange_flag:
  "focusInRange lc p s \<Longrightarrow> focusInRange lc p (s\<lparr>showOptions := b\<rparr>)"
  by (simp add: focusInRange_def filteredOptions_def split: jsnum.splits)

lemma focusInRange_handleFocus:
  assumes "focusInRange lc p s"
  shows "focusInRange lc p (handleFocus s)"
proof -
  have "length (filteredOptions lc p s) \<le> length (filteredOptions lc p (handleFocus s))"
    by (simp add: filteredOptions_def handleFocus_def filterOptions_def)
  with assms show ?thesis
    by (auto simp: focusInRange_def handleFocus_def split: jsnum.splits)
qed

lemma js_rem_range:
  assumes "0 \<le> a \<or> (a = - 1 \<and> n = 1)" and "0 < n"
  shows "\<exists>j. js_rem (Num a) n = Num j \<and> 0 \<le> j \<and> j < int n"
proof (cases "0 \<le> a")
  case True
  with assms(2) have "js_rem (Num a) n = Num (a mod int n)" by (rule js_rem_nonneg [rotated])
  moreover from assms(2) have "0 \<le> a mod int n" and "a mod int n < int n" by simp_all
  ultimately show ?thesis by blast
next
  case False
  with assms(1) have "a = - 1" and "n = 1" by simp_all
  then show ?thesis by simp
qed

lemma focusInRange_arrow:
  assumes "focusInRange lc p s" and "filteredOptions lc p s \<noteq> []" and "showOptions s"
  shows "focusInRange lc p (fst (handleKeyDown lc p s ''ArrowDown''))"
    and "focusInRange lc p (fst (handleKeyDown lc p s ''ArrowUp''))"
proof -
  let ?n = "length (filteredOptions lc p s)"
  from assms(1) obtain i where i: "currentFocusedOption s = Num i" "- 1 \<le> i" "i < int ?n"
    by (auto simp: focusInRange_def split: jsnum.splits)
  have n: "0 < ?n" using assms(2) by simp
  from js_rem_range [of "i + 1" ?n] i n
  obtain j where "js_rem (Num (i + 1)) ?n = Num j" "0 \<le> j" "j < int ?n" by auto
  then show "focusInRange lc p (fst (handleKeyDown lc p s ''ArrowDown''))"
    using assms(3) i by (simp add: handleKeyDown_ArrowDown focusInRange_def filteredOptions_def)
  have "0 \<le> i - 1 + int ?n \<or> (i - 1 + int ?n = - 1 \<and> ?n = 1)"
    using i(2) n by linarith
  from js_rem_range [OF this n]
  obtain k where "js_rem (Num (i - 1 + int ?n)) ?n = Num k" "0 \<le> k" "k < int ?n" by auto
  then show "focusInRange lc p (fst (handleKeyDown lc p s ''ArrowUp''))"
    using assms(3) i by (simp add: handleKeyDown_ArrowUp focusInRange_def filteredOptions_def)
qed

lemma focusInRange_handleKeyDown:
  assumes "focusInRange lc p s" and "\<not> arrowOnEmptyList lc p s (KeyDown k)"
  shows "shouldUpdateInput (fst (handleKeyDown lc p s k)) \<or>
         focusInRange lc p (fst (handleKeyDown lc p s k))"
proof (cases "isSpecialKey k")
  case False
  with assms(1) show ?thesis by (simp add: handleKeyDown_other)
next
  case True
  then consider "k = ''ArrowUp''" | "k = ''ArrowDown''" | "k = ''Enter''" | "k = ''Escape''"
    by (auto simp: isSpecialKey_cases)
  then show ?thesis
  proof cases
    case 1
    show ?thesis
    proof (cases "showOptions s")
      case True
      with assms 1 have "filteredOptions lc p s \<noteq> []" by (simp add: arrowOnEmptyList_def)
      with assms(1) True 1 show ?thesis by (simp add: focusInRange_arrow)
    next
      case False
      with assms(1) 1 show ?thesis by (simp add: handleKeyDown_ArrowUp focusInRange_flag)
    qed
  next
    case 2
    show ?thesis
    proof (cases "showOptions s")
      case True
      with assms 2 have "filteredOptions lc p s \<noteq> []" by (simp add: arrowOnEmptyList_def)
      with assms(1) True 2 show ?thesis by (simp add: focusInRange_arrow)
    next
      case False
      with assms(1) 2 show ?thesis by (simp add: handleKeyDown_ArrowDown focusInRange_flag)
    qed
  next
    case 3
    with assms(1) show ?thesis by (simp add: handleKeyDown_Enter focusInRange_flag)
  next
    case 4
    with assms(1) show ?thesis by (simp add: handleKeyDown_Escape)
  qed
qed

lemma focusInRange_handle:
  assumes "focusInRange lc p s" and "\<not> isChange ev" and "\<not> arrowOnEmptyList lc p s ev"
  shows "shouldUpdateInput (handle lc p s ev) \<or> focusInRange lc p (handle lc p s ev)"
proof (cases ev)
  case Focus
  with assms(1) show ?thesis by (simp add: focusInRange_handleFocus)
next
  case (Change t)
  with assms(2) show ?thesis by simp
next
  case (KeyDown k)
  with assms(1,3) show ?thesis by (simp add: focusInRange_handleKeyDown)
next
  case (OptionClick i)
  with assms(1) show ?thesis
    by (simp add: handleOptionClick_def split: option.split)
next
  case (MouseEnter i)
  with assms(1) show ?thesis
    by (auto simp: renderedOption_def focusInRange_def filteredOptions_def
        split: option.split if_splits)
next
  case (DocumentClick inside)
  with assms(1) show ?thesis by (simp add: handleClickOutside_def)
next
  case BlurTimeout
  with assms(1) show ?thesis by (simp add: handleBlurCallback_def)
qed

lemma showOptions_handle_closes:
  "showOptions s \<Longrightarrow> \<not> showOptions (handle lc p s ev) \<Longrightarrow> shouldUpdateInput (handle lc p s ev)"
  by (cases ev)
     (auto simp: handleFocus_def handleChange_def handleKeyDown_def Let_def handleOptionClick_def
        handleClickOutside_def handleBlurCallback_def split: if_splits option.splits)

text \<open>
  Claim C2, as the code has it. The focused index is within
  \<open>[-1, filteredOptions.length - 1]\<close> after mount. Every resync resets it to \<open>-1\<close> and
  closes the dropdown, and whenever a transition closes the dropdown the index is \<open>-1\<close>
  afterwards. Every transition other than an input-text change keeps the index within
  the range (for an arrow key: when the filtered list is not empty). An input-text
  change recomputes the filtered list and leaves the index as it is.
\<close>

theorem focused_index_range:
  "focusInRange lc p (mount p iv) \<and>
   (shouldUpdateInput s \<longrightarrow>
      currentFocusedOption (resyncEffect s) = Num (- 1) \<and> \<not> showOptions (resyncEffect s)) \<and>
   (showOptions s \<and> \<not> showOptions (step lc p s ev) \<longrightarrow>
      currentFocusedOption (step lc p s ev) = Num (- 1)) \<and>
   (focusInRange lc p s \<and> \<not> isChange ev \<and> \<not> arrowOnEmptyList lc p s ev \<longrightarrow>
      focusInRange lc p (step lc p s ev)) \<and>
   (\<not> shouldUpdateInput s \<longrightarrow>
      currentFocusedOption (step lc p s (Change t)) = currentFocusedOption s)"
proof -
  have "focusInRange lc p (mount p iv)"
    by (simp add: mount_def focusInRange_resync initialState_def)
  moreover have "shouldUpdateInput s \<longrightarrow>
      currentFocusedOption (resyncEffect s) = Num (- 1) \<and> \<not> showOptions (resyncEffect s)"
    by (simp add: resyncEffect_def)
  moreover have "showOptions s \<and> \<not> showOptions (step lc p s ev) \<longrightarrow>
      currentFocusedOption (step lc p s ev) = Num (- 1)"
  proof (cases "shouldUpdateInput (handle lc p s ev)")
    case True
    then show ?thesis by (simp add: step_def resyncEffect_def)
  next
    case False
    then have "step lc p s ev = handle lc p s ev" by (simp add: step_def resyncEffect_def)
    with False showOptions_handle_closes [of s lc p ev] show ?thesis by auto
  qed
  moreover have "focusInRange lc p s \<and> \<not> isChange ev \<and> \<not> arrowOnEmptyList lc p s ev \<longrightarrow>
      focusInRange lc p (step lc p s ev)"
    using focusInRange_handle [of lc p s ev] focusInRange_resync [of "handle lc p s ev" lc p]
    by (auto simp: step_def)
  moreover have "\<not> shouldUpdateInput s \<longrightarrow>
      currentFocusedOption (step lc p s (Change t)) = currentFocusedOption s"
    by (simp add: step_def handleChange_def resyncEffect_def)
  ultimately show ?thesis by blast
qed

theorem focused_index_range_witness:
  "focusInRange asciiLower (appProps (Some [''ant'', ''bee'']) False)
     (run asciiLower (appProps (Some [''ant'', ''bee'']) False)
        (mount (appProps (Some [''ant'', ''bee'']) False) []) [Focus, MouseEnter 1]) \<and>
   \<not> isChange (KeyDown ''ArrowDown'') \<and>
   \<not> arrowOnEmptyList asciiLower (appProps (Some [''ant'', ''bee'']) False)
     (run asciiLower (appProps (Some [''ant'', ''bee'']) False)
        (mount (appProps (Some [''ant'', ''bee'']) False) []) [Focus, MouseEnter 1])
     (KeyDown ''ArrowDown'') \<and>
   focusInRange asciiLower (appProps (Some [''ant'', ''bee'']) False)
     (run asciiLower (appProps (Some [''ant'', ''bee'']) False)
        (mount (appProps (Some [''ant'', ''bee'']) False) [])
        [Focus, MouseEnter 1, KeyDown ''ArrowDown'']) \<and>
   shouldUpdateInput (initialState (appProps (Some [''ant'', ''bee'']) False) []) \<and>
   currentFocusedOption (mount (appProps (Some [''ant'', ''bee'']) False) []) = Num (- 1) \<and>
   showOptions (run asciiLower (appProps (Some [''ant'', ''bee'']) False)
        (mount (appProps (Some [''ant'', ''bee'']) False) []) [Focus, MouseEnter 1]) \<and>
   \<not> showOptions (run asciiLower (appProps (Some [''ant'', ''bee'']) False)
        (mount (appProps (Some [''ant'', ''bee'']) False) [])
        [Focus, MouseEnter 1, DocumentClick False]) \<and>
   currentFocusedOption (run asciiLower (appProps (Some [''ant'', ''bee'']) False)
        (mount (appProps (Some [''ant'', ''bee'']) False) [])
        [Focus, MouseEnter 1, DocumentClick False]) = Num (- 1) \<and>
   currentFocusedOption (run asciiLower (appProps (Some [''ant'', ''bee'']) False)
        (mount (appProps (Some [''ant'', ''bee'']) False) [])
        [Focus, MouseEnter 1, Change ''a'']) = Num 1"
  using
    focused_index_range [of asciiLower "appProps (Some [''ant'', ''bee'']) False" "[]"
      "run asciiLower (appProps (Some [''ant'', ''bee'']) False)
         (mount (appProps (Some [''ant'', ''bee'']) False) []) [Focus, MouseEnter 1]"
      "KeyDown ''ArrowDown''" "''a''"]
    focused_index_range [of asciiLower "appProps (Some [''ant'', ''bee'']) False" "[]"
      "initialState (appProps (Some [''ant'', ''bee'']) False) []"
      "DocumentClick False" "''a''"]
    focused_index_range [of asciiLower "appProps (Some [''ant'', ''bee'']) False" "[]"
      "run asciiLower (appProps (Some [''ant'', ''bee'']) False)
         (mount (appProps (Some [''ant'', ''bee'']) False) []) [Focus, MouseEnter 1]"
      "DocumentClick False" "''a''"]
  by (simp add: select_eval focusInRange_def arrowOnEmptyList_def)

text \<open>
  Claim C2 as stated fails after an input-text change. With three options, hovering the
  third row sets the focused index to 2; typing \<open>ban\<close> then leaves one filtered option
  and the index at 2, outside \<open>[-1, 0]\<close>.
\<close>

theorem focused_index_range_counterexample:
  "currentFocusedOption
     (run asciiLower (appProps (Some [''apple'', ''banana'', ''cherry'']) False)
        (mount (appProps (Some [''apple'', ''banana'', ''cherry'']) False) [])
        [Focus, MouseEnter 2, Change ''ban'']) = Num 2 \<and>
   filteredOptions asciiLower (appProps (Some [''apple'', ''banana'', ''cherry'']) False)
     (run asciiLower (appProps (Some [''apple'', ''banana'', ''cherry'']) False)
        (mount (appProps (Some [''apple'', ''banana'', ''cherry'']) False) [])
        [Focus, MouseEnter 2, Change ''ban'']) = [wordOption ''banana''] \<and>
   \<not> focusInRange asciiLower (appProps (Some [''apple'', ''banana'', ''cherry'']) False)
     (run asciiLower (appProps (Some [''apple'', ''banana'', ''cherry'']) False)
        (mount (appProps (Some [''apple'', ''banana'', ''cherry'']) False) [])
        [Focus, MouseEnter 2, Change ''ban''])"
  by (simp add: select_eval focusInRange_def)

section \<open>Debounce\<close>

lemma singleTimer_initial: "singleTimer initialDebounce"
  by (simp add: singleTimer_def initialDebounce_def)

lemma debounced_pending:
  assumes "singleTimer r"
  shows "pending (debounced delay a r) = [\<lparr>tid = nextId r, due = now r + delay, arg = a\<rparr>]"
  using assms
  by (auto simp: singleTimer_def debounced_def setTimeout_def clearTimeout_def
      split: option.splits list.splits)

lemma debounced_frame:
  "fired (debounced delay a r) = fired r \<and> now (debounced delay a r) = now r \<and>
   nextId (debounced delay a r) = Suc (nextId r) \<and>
   debounceRef (debounced delay a r) = Some (nextId r)"
  by (simp add: debounced_def setTimeout_def clearTimeout_def split: option.splits)

lemma singleTimer_debounced:
  assumes "singleTimer r"
  shows "singleTimer (debounced delay a r)"
  using assms debounced_pending [OF assms, of delay a] debounced_frame [of delay a r]
  by (simp add: singleTimer_def)

lemma singleTimer_elapse: "singleTimer r \<Longrightarrow> singleTimer (elapse dt r)"
  by (auto simp: singleTimer_def elapse_def Let_def split: option.splits list.splits)

lemma singleTimer_step: "singleTimer r \<Longrightarrow> singleTimer (debounceStep delay r e)"
  by (cases e) (simp_all add: singleTimer_debounced singleTimer_elapse)

lemma singleTimer_foldl:
  "singleTimer r \<Longrightarrow> singleTimer (foldl (debounceStep delay) r evs)"
  by (induction evs arbitrary: r) (simp_all add: singleTimer_step)

lemma singleTimer_run: "singleTimer (debounceRun delay evs)"
  by (simp add: debounceRun_def singleTimer_foldl singleTimer_initial)

lemma singleTimer_length: "singleTimer r \<Longrightarrow> length (pending r) \<le> 1"
  by (auto simp: singleTimer_def split: option.splits list.splits)

lemma elapse_cases:
  assumes "singleTimer r"
  shows "(pending r = [] \<and> pending (elapse dt r) = [] \<and> fired (elapse dt r) = fired r) \<or>
         (\<exists>t. pending r = [t] \<and> due t \<le> now r + dt \<and>
              pending (elapse dt r) = [] \<and> fired (elapse dt r) = fired r @ [arg t]) \<or>
         (\<exists>t. pending r = [t] \<and> \<not> due t \<le> now r + dt \<and>
              pending (elapse dt r) = [t] \<and> fired (elapse dt r) = fired r)"
  using singleTimer_length [OF assms]
  by (cases "pending r") (auto simp: elapse_def Let_def)

lemma fired_foldl:
  "singleTimer r \<Longrightarrow>
     fired (foldl (debounceStep delay) r evs) = fired r @ pendingFires r evs @ specFired delay evs"
proof (induction evs arbitrary: r)
  case Nil
  then show ?case by (simp add: pendingFires_def split: list.splits)
next
  case (Cons e evs)
  show ?case
  proof (cases e)
    case (Invoke a)
    let ?r = "debounced delay a r"
    have st: "singleTimer ?r" using Cons.prems by (rule singleTimer_debounced)
    have "pendingFires ?r evs = (if outlivesWindow delay evs then [a] else [])"
      using debounced_pending [OF Cons.prems, of delay a] debounced_frame [of delay a r]
      by (simp add: pendingFires_def)
    moreover have "pendingFires r (e # evs) = []"
      using Invoke by (simp add: pendingFires_def split: list.splits)
    ultimately show ?thesis
      using Cons.IH [OF st] Invoke debounced_frame [of delay a r] by simp
  next
    case (Elapse dt)
    let ?r = "elapse dt r"
    have st: "singleTimer ?r" using Cons.prems by (rule singleTimer_elapse)
    have nw: "now ?r = now r + dt" by (simp add: elapse_def Let_def)
    have "fired ?r @ pendingFires ?r evs = fired r @ pendingFires r (e # evs)"
      using elapse_cases [OF Cons.prems, of dt] Elapse nw
      by (auto simp: pendingFires_def)
    then show ?thesis
      using Cons.IH [OF st] Elapse by simp
  qed
qed

lemma fired_run: "fired (debounceRun delay evs) = specFired delay evs"
  using fired_foldl [OF singleTimer_initial, of delay evs]
  by (simp add: debounceRun_def pendingFires_def initialDebounce_def)

text \<open>
  Claim C9. After every sequence of invocations of one debounce wrapper and passages of
  time, at most one timer is pending. An invocation leaves exactly its own timer pending,
  due after the delay, so a timer that was pending before is cancelled, and it runs no
  callback itself. If the next invocation comes before the delay has passed, the earlier
  one never runs its callback and the later one's timer is the pending one; if the delay
  passes first, the callback runs with the invocation's argument and no timer is left.
  Over a whole run the callback's calls are those of the specification: an invocation
  fires if and only if the delay passes before the next invocation.
\<close>

theorem debounce_latest_invocation_fires:
  "length (pending (debounceRun delay evs)) \<le> 1 \<and>
   pending (debounceRun delay (evs @ [Invoke a])) =
     [\<lparr>tid = nextId (debounceRun delay evs), due = now (debounceRun delay evs) + delay, arg = a\<rparr>] \<and>
   fired (debounceRun delay (evs @ [Invoke a])) = fired (debounceRun delay evs) \<and>
   (dt < delay \<longrightarrow>
      fired (debounceRun delay (evs @ [Invoke a, Elapse dt, Invoke b])) = fired (debounceRun delay evs)
      \<and> map arg (pending (debounceRun delay (evs @ [Invoke a, Elapse dt, Invoke b]))) = [b]) \<and>
   (delay \<le> dt \<longrightarrow>
      fired (debounceRun delay (evs @ [Invoke a, Elapse dt])) = fired (debounceRun delay evs) @ [a]
      \<and> pending (debounceRun delay (evs @ [Invoke a, Elapse dt])) = []) \<and>
   fired (debounceRun delay evs) = specFired delay evs"
proof -
  let ?r = "debounceRun delay evs"
  let ?ra = "debounced delay a ?r"
  have st: "singleTimer ?r" by (rule singleTimer_run)
  have ra: "debounceRun delay (evs @ [Invoke a]) = ?ra"
    by (simp add: debounceRun_def)
  have pa: "pending ?ra = [\<lparr>tid = nextId ?r, due = now ?r + delay, arg = a\<rparr>]"
    using st by (rule debounced_pending)
  have fa: "fired ?ra = fired ?r" and na: "now ?ra = now ?r"
    using debounced_frame [of delay a ?r] by simp_all
  have sta: "singleTimer ?ra" using st by (rule singleTimer_debounced)
  have early: "dt < delay \<longrightarrow>
      fired (debounceRun delay (evs @ [Invoke a, Elapse dt, Invoke b])) = fired ?r
      \<and> map arg (pending (debounceRun delay (evs @ [Invoke a, Elapse dt, Invoke b]))) = [b]"
  proof
    assume lt: "dt < delay"
    have e: "debounceRun delay (evs @ [Invoke a, Elapse dt, Invoke b])
               = debounced delay b (elapse dt ?ra)"
      by (simp add: debounceRun_def)
    have "fired (elapse dt ?ra) = fired ?r"
      using lt pa fa na by (simp add: elapse_def Let_def)
    moreover have "singleTimer (elapse dt ?ra)" using sta by (rule singleTimer_elapse)
    ultimately show "fired (debounceRun delay (evs @ [Invoke a, Elapse dt, Invoke b])) = fired ?r
      \<and> map arg (pending (debounceRun delay (evs @ [Invoke a, Elapse dt, Invoke b]))) = [b]"
      using e debounced_frame [of delay b "elapse dt ?ra"]
        debounced_pending [of "elapse dt ?ra" delay b]
      by simp
  qed
  have late: "delay \<le> dt \<longrightarrow>
      fired (debounceRun delay (evs @ [Invoke a, Elapse dt])) = fired ?r @ [a]
      \<and> pending (debounceRun delay (evs @ [Invoke a, Elapse dt])) = []"
  proof
    assume le: "delay \<le> dt"
    have e: "debounceRun delay (evs @ [Invoke a, Elapse dt]) = elapse dt ?ra"
      by (simp add: debounceRun_def)
    show "fired (debounceRun delay (evs @ [Invoke a, Elapse dt])) = fired ?r @ [a]
      \<and> pending (debounceRun delay (evs @ [Invoke a, Elapse dt])) = []"
      using le pa fa na by (simp add: e elapse_def Let_def)
  qed
  show ?thesis
    using singleTimer_length [OF st] ra pa fa early late fired_run [of delay evs]
    by simp
qed

theorem debounce_latest_invocation_fires_witness:
  "(149::nat) < 150 \<and>
   fired (debounceRun 150 [Invoke (1::nat), Elapse 100, Invoke 2, Elapse 149, Invoke 3]) = [] \<and>
   map arg (pending (debounceRun 150 [Invoke (1::nat), Elapse 100, Invoke 2, Elapse 149, Invoke 3]))
     = [3] \<and>
   (150::nat) \<le> 150 \<and>
   fired (debounceRun 150 [Invoke (1::nat), Elapse 100, Invoke 2, Elapse 150]) = [2] \<and>
   pending (debounceRun 150 [Invoke (1::nat), Elapse 100, Invoke 2, Elapse 150]) = [] \<and>
   specFired 150 [Invoke (1::nat), Elapse 100, Invoke 2, Elapse 150] = [2]"
  using
    debounce_latest_invocation_fires [of 150 "[Invoke (1::nat), Elapse 100]" 2 149 3]
    debounce_latest_invocation_fires [of 150 "[Invoke (1::nat), Elapse 100]" 2 150 3]
  by (simp add: debounce_eval)

section \<open>The specification's example\<close>

text \<open>
  With the one value \<open>cat\<close> and the typed text \<open>ca\<close>, the filtered list is the option
  \<open>cat\<close>; arrow-down then Enter selects it, sets the input text to \<open>cat\<close>, closes the
  dropdown, and the selection callback receives the value \<open>cat\<close>.
\<close>

theorem example_cat:
  "filteredOptions asciiLower (appProps (Some [''cat'']) False)
     (run asciiLower (appProps (Some [''cat'']) False) (mount (appProps (Some [''cat'']) False) [])
        [Focus, Change ''ca'']) = [\<lparr>label = ''cat'', val = ''cat''\<rparr>] \<and>
   run asciiLower (appProps (Some [''cat'']) False) (mount (appProps (Some [''cat'']) False) [])
      [Focus, Change ''ca'', KeyDown ''ArrowDown'', KeyDown ''Enter'']
     = \<lparr>inputValue = ''cat'', showOptions = False, shouldUpdateInput = False,
        currentFocusedOption = Num (- 1),
        selectedOption = Some \<lparr>label = ''cat'', val = ''cat''\<rparr>\<rparr> \<and>
   onOptionSelectedEffect (appProps (Some [''cat'']) False)
     (run asciiLower (appProps (Some [''cat'']) False) (mount (appProps (Some [''cat'']) False) [])
        [Focus, Change ''ca'', KeyDown ''ArrowDown'', KeyDown ''Enter''])
     = Some (Some ''cat'')"
  by (simp add: select_eval onOptionSelectedEffect_def toValue_def)

end
